theory Spec2Isabelle
  imports Complex_Main "HOL-Library.Sublist"
begin

section \<open>Python values and exceptions\<close>

text \<open>
  The road-sign service is Python. An exception is a value of \<open>exn\<close>; a function that
  may raise returns \<open>exn + 'a\<close>, with \<open>Inl\<close> for the raise. Python floats are read as
  real numbers (no rounding), Python ints as \<open>int\<close>. A \<open>str\<close> is a \<open>string\<close> of ASCII
  characters; message texts are written without accents.
\<close>

datatype exn =
    ValueError string
  | IndexError string
  | ZeroDivisionError string
  | ReError string
  | LibraryError string
  | HTTPException nat string

definition bind_exn :: "exn + 'a \<Rightarrow> ('a \<Rightarrow> exn + 'b) \<Rightarrow> exn + 'b" where
  "bind_exn m f = (case m of Inl e \<Rightarrow> Inl e | Inr x \<Rightarrow> f x)"

text \<open>\<open>int(x)\<close> on a float truncates towards zero.\<close>

definition py_int :: "real \<Rightarrow> int" where
  "py_int x = (if 0 \<le> x then \<lfloor>x\<rfloor> else \<lceil>x\<rceil>)"

text \<open>\<open>str(n)\<close> for an int, as the f-strings format it.\<close>

fun show_nat :: "nat \<Rightarrow> string" where
  "show_nat n =
     (if n < 10 then [char_of (48 + n)]
      else show_nat (n div 10) @ [char_of (48 + n mod 10)])"

definition show_int :: "int \<Rightarrow> string" where
  "show_int i = (if i < 0 then CHR ''-'' # show_nat (nat (- i)) else show_nat (nat i))"

text \<open>
  \<open>str(e)\<close>: the message the exception was built with; for an \<open>HTTPException\<close> the
  framework prints the status code and the detail.
\<close>

fun str_exn :: "exn \<Rightarrow> string" where
  "str_exn (ValueError m) = m"
| "str_exn (IndexError m) = m"
| "str_exn (ZeroDivisionError m) = m"
| "str_exn (ReError m) = m"
| "str_exn (LibraryError m) = m"
| "str_exn (HTTPException code detail) = show_nat code @ '': '' @ detail"

section \<open>Strings\<close>

text \<open>
  The \<open>str\<close> methods the pipeline uses, on ASCII text: \<open>isspace\<close> is Python's whitespace
  (tab to carriage return, the four separators 28 to 31 and the space), \<open>upper\<close> maps
  \<open>a..z\<close> to \<open>A..Z\<close>, \<open>split()\<close> cuts at runs of whitespace and drops empty pieces,
  \<open>sep.join\<close> concatenates with the separator, \<open>strip()\<close> removes whitespace at both
  ends, and \<open>p in s\<close> is substring containment.
\<close>

definition is_ascii :: "string \<Rightarrow> bool" where
  "is_ascii s = list_all (\<lambda>c. (of_char c :: nat) < 128) s"

definition isspace :: "char \<Rightarrow> bool" where
  "isspace c = (let n = (of_char c :: nat) in (9 \<le> n \<and> n \<le> 13) \<or> (28 \<le> n \<and> n \<le> 32))"

definition isalnum :: "char \<Rightarrow> bool" where
  "isalnum c = (let n = (of_char c :: nat) in
     (48 \<le> n \<and> n \<le> 57) \<or> (65 \<le> n \<and> n \<le> 90) \<or> (97 \<le> n \<and> n \<le> 122))"

definition isdigit :: "char \<Rightarrow> bool" where
  "isdigit c = (let n = (of_char c :: nat) in 48 \<le> n \<and> n \<le> 57)"

definition upper_char :: "char \<Rightarrow> char" where
  "upper_char c =
     (let n = (of_char c :: nat) in if 97 \<le> n \<and> n \<le> 122 then char_of (n - 32) else c)"

definition py_upper :: "string \<Rightarrow> string" where
  "py_upper s = map upper_char s"

fun py_split :: "string \<Rightarrow> string list" where
  "py_split [] = []"
| "py_split [c] = (if isspace c then [] else [[c]])"
| "py_split (c # d # ds) =
     (if isspace c then py_split (d # ds)
      else if isspace d then [c] # py_split (d # ds)
      else (case py_split (d # ds) of
              w # ws \<Rightarrow> (c # w) # ws
            | [] \<Rightarrow> [[c]]))"

fun py_join :: "string \<Rightarrow> string list \<Rightarrow> string" where
  "py_join sep [] = []"
| "py_join sep [w] = w"
| "py_join sep (w # v # ws) = w @ sep @ py_join sep (v # ws)"

definition py_strip :: "string \<Rightarrow> string" where
  "py_strip s = rev (dropWhile isspace (rev (dropWhile isspace s)))"

fun py_in :: "string \<Rightarrow> string \<Rightarrow> bool" where
  "py_in p [] = (p = [])"
| "py_in p (c # cs) = (take (length p) (c # cs) = p \<or> py_in p cs)"

subsection \<open>Character classes of the \<open>re\<close> module\<close>

text \<open>
  \<open>re.sub(r'[^...]', '', s)\<close> deletes the characters a negated character class
  matches, after compiling the class. The compiler reads the body of the class item by
  item: an atom is a character, an escaped character or a category (\<open>\w\<close>, \<open>\s\<close>,
  \<open>\d\<close> and their complements); an atom followed by \<open>-\<close> and another atom is a range,
  and a range is refused with \<open>bad character range\<close> when one of its ends is a
  category or the ends are out of order. A \<open>-\<close> with nothing after it is a literal.
\<close>

datatype class_tok = Lit char | Cat char | Dash

fun class_toks :: "string \<Rightarrow> class_tok list" where
  "class_toks [] = []"
| "class_toks [c] = (if c = CHR ''-'' then [Dash] else [Lit c])"
| "class_toks (c # d # rest) =
     (if c = CHR 0x5C then (if d \<in> set ''wsdWSD'' then Cat d else Lit d) # class_toks rest
      else if c = CHR ''-'' then Dash # class_toks (d # rest)
      else Lit c # class_toks (d # rest))"

datatype class_item = Single class_tok | Range char char

definition bad_character_range :: exn where
  "bad_character_range = ReError ''bad character range''"

fun class_items :: "class_tok list \<Rightarrow> exn + class_item list" where
  "class_items [] = Inr []"
| "class_items (a # Dash # b # rest) =
     (case (a, b) of
        (Lit lo, Lit hi) \<Rightarrow>
          if (of_char hi :: nat) < of_char lo then Inl bad_character_range
          else map_sum id (Cons (Range lo hi)) (class_items rest)
      | (Dash, Lit hi) \<Rightarrow>
          if (of_char hi :: nat) < of_char CHR ''-'' then Inl bad_character_range
          else map_sum id (Cons (Range CHR ''-'' hi)) (class_items rest)
      | (Lit lo, Dash) \<Rightarrow>
          if (of_char CHR ''-'' :: nat) < of_char lo then Inl bad_character_range
          else map_sum id (Cons (Range lo CHR ''-'')) (class_items rest)
      | (Dash, Dash) \<Rightarrow> map_sum id (Cons (Range CHR ''-'' CHR ''-'')) (class_items rest)
      | _ \<Rightarrow> Inl bad_character_range)"
| "class_items (a # rest) = map_sum id (Cons (Single a)) (class_items rest)"

fun item_matches :: "class_item \<Rightarrow> char \<Rightarrow> bool" where
  "item_matches (Single (Lit l)) c = (c = l)"
| "item_matches (Single Dash) c = (c = CHR ''-'')"
| "item_matches (Single (Cat k)) c =
     (if k = CHR ''w'' then isalnum c \<or> c = CHR ''_''
      else if k = CHR ''W'' then \<not> (isalnum c \<or> c = CHR ''_'')
      else if k = CHR ''s'' then isspace c
      else if k = CHR ''S'' then \<not> isspace c
      else if k = CHR ''d'' then isdigit c
      else \<not> isdigit c)"
| "item_matches (Range lo hi) c =
     ((of_char lo :: nat) \<le> of_char c \<and> (of_char c :: nat) \<le> of_char hi)"

text \<open>\<open>re.sub('[^' + body + ']', '', s)\<close>: keep the characters the class matches.\<close>

definition re_sub_negated_class :: "string \<Rightarrow> string \<Rightarrow> exn + string" where
  "re_sub_negated_class body s =
     (case class_items (class_toks body) of
        Inl e \<Rightarrow> Inl e
      | Inr items \<Rightarrow> Inr (filter (\<lambda>c. list_ex (\<lambda>i. item_matches i c) items) s))"

section \<open>Configuration\<close>

text \<open>
  The entries of \<open>model_config.yml\<close> that the inference pipeline reads. An entry read
  with \<open>.get(key, default)\<close> is the value after the default was applied. A known pattern
  is any YAML value; only the strings take part in the matching.
\<close>

record roi_config =
  padding_ratio :: real
  min_area :: real
  max_aspect_ratio :: real

datatype yaml_value = YStr string | YOther

record postprocessing_config =
  remove_special_chars :: bool
  known_patterns :: "yaml_value list"

record preprocessing_config =
  denoise :: bool
  contrast_enhancement :: bool
  brightness_adjustment :: bool
  min_height :: int
  threshold_method :: string

record pipeline_config =
  detection_min :: real
  detection_nms :: real
  roi :: roi_config
  architecture :: string
  tesseract_config :: string
  preprocessing :: preprocessing_config
  postprocessing :: postprocessing_config

section \<open>Text normalizer\<close>

text \<open>
  \<open>RoadSignInferencePipeline._postprocess_text\<close>. The class it strips with is written
  \<open>[^\w\s-/]\<close> in the source; \<open>special_chars_class\<close> is the body of that class.
\<close>

definition special_chars_class :: string where
  "special_chars_class = [CHR 0x5C, CHR ''w'', CHR 0x5C, CHR ''s'', CHR ''-'', CHR ''/'']"

fun match_patterns :: "yaml_value list \<Rightarrow> string \<Rightarrow> string" where
  "match_patterns [] processed = processed"
| "match_patterns (YStr pattern # ps) processed =
     (if py_in (py_upper pattern) (py_upper processed) then py_upper pattern
      else match_patterns ps processed)"
| "match_patterns (YOther # ps) processed = match_patterns ps processed"

definition postprocess_text :: "postprocessing_config \<Rightarrow> string \<Rightarrow> exn + string" where
  "postprocess_text cfg txt =
     (if txt = [] then Inr []
      else
        case (if remove_special_chars cfg then re_sub_negated_class special_chars_class txt
              else Inr txt) of
          Inl e \<Rightarrow> Inl e
        | Inr processed \<Rightarrow>
            let processed = py_join '' '' (py_split processed);
                processed = py_upper processed
            in Inr (match_patterns (known_patterns cfg) processed))"

text \<open>Whitespace collapsing on its own, and the patterns it leaves unchanged.\<close>

definition collapse :: "string \<Rightarrow> string" where
  "collapse s = py_join '' '' (py_split s)"

definition word_ok :: "string \<Rightarrow> bool" where
  "word_ok w = (w \<noteq> [] \<and> list_all (\<lambda>c. \<not> isspace c) w)"

fun pattern_collapsed :: "yaml_value \<Rightarrow> bool" where
  "pattern_collapsed (YStr p) = (collapse p = p \<and> is_ascii p)"
| "pattern_collapsed YOther = True"

section \<open>Geometry validator\<close>

text \<open>
  \<open>RoadSignInferencePipeline._validate_detection\<close>. The shape is the tuple of the
  image array; \<open>h, w = image_shape[:2]\<close> raises when it has fewer than two entries.
  The aspect ratio is a float that may be \<open>float('inf')\<close>.
\<close>

datatype ext_float = Finite real | Infinity

fun ext_gt :: "ext_float \<Rightarrow> real \<Rightarrow> bool" where
  "ext_gt (Finite a) m = (a > m)"
| "ext_gt Infinity m = True"

definition validate_detection ::
  "roi_config \<Rightarrow> real \<Rightarrow> real \<Rightarrow> real \<Rightarrow> real \<Rightarrow> int list \<Rightarrow> exn + bool" where
  "validate_detection cfg x1 y1 x2 y2 image_shape =
     (case take 2 image_shape of
        [h, w] \<Rightarrow>
          if x1 < 0 \<or> y1 < 0 \<or> x2 > of_int w \<or> y2 > of_int h \<or> x1 \<ge> x2 \<or> y1 \<ge> y2
          then Inr False
          else
            let area = (x2 - x1) * (y2 - y1) in
            if area < min_area cfg then Inr False
            else
              let width = x2 - x1;
                  height = y2 - y1;
                  aspect_ratio = (if height > 0 then Finite (width / height) else Infinity)
              in if ext_gt aspect_ratio (max_aspect_ratio cfg) then Inr False
                 else Inr True
      | _ \<Rightarrow> Inl (ValueError ''not enough values to unpack (expected 2)''))"

text \<open>The \<open>roi\<close> entries of the configuration the repository's tests use.\<close>

definition test_roi_config :: roi_config where
  "test_roi_config = \<lparr>padding_ratio = 1 / 10, min_area = 100, max_aspect_ratio = 5\<rparr>"

section \<open>Images and the region extractor\<close>

text \<open>
  A numpy image array: its rows and columns, its channel count (\<open>None\<close> for a
  two-dimensional array) and its samples by row, column and channel. A basic slice
  \<open>a[lo:hi]\<close> of an axis of length \<open>n\<close> clips its bounds as Python does, a negative
  bound counting from the end.
\<close>

record ndarray =
  nrows :: nat
  ncols :: nat
  nchan :: "nat option"
  sample :: "nat \<Rightarrow> nat \<Rightarrow> nat \<Rightarrow> nat"

definition shape :: "ndarray \<Rightarrow> int list" where
  "shape a = [int (nrows a), int (ncols a)] @ (case nchan a of None \<Rightarrow> [] | Some c \<Rightarrow> [int c])"

definition array_size :: "ndarray \<Rightarrow> nat" where
  "array_size a = nrows a * ncols a * (case nchan a of None \<Rightarrow> 1 | Some c \<Rightarrow> c)"

definition area :: "ndarray \<Rightarrow> nat" where
  "area a = nrows a * ncols a"

definition slice_index :: "int \<Rightarrow> nat \<Rightarrow> nat" where
  "slice_index i n = (if i < 0 then nat (max 0 (i + int n)) else nat (min i (int n)))"

definition slice2d :: "ndarray \<Rightarrow> int \<Rightarrow> int \<Rightarrow> int \<Rightarrow> int \<Rightarrow> ndarray" where
  "slice2d a r1 r2 c1 c2 =
     (let rlo = slice_index r1 (nrows a); rhi = slice_index r2 (nrows a);
          clo = slice_index c1 (ncols a); chi = slice_index c2 (ncols a)
      in \<lparr>nrows = rhi - rlo, ncols = chi - clo, nchan = nchan a,
          sample = (\<lambda>i j k. sample a (rlo + i) (clo + j) k)\<rparr>)"

text \<open>
  \<open>RoadSignInferencePipeline.extract_roi\<close>; \<open>x1, y1, x2, y2 = bbox\<close> raises unless the
  box has four entries.
\<close>

definition extract_roi :: "roi_config \<Rightarrow> ndarray \<Rightarrow> int list \<Rightarrow> exn + ndarray" where
  "extract_roi cfg image0 bbox =
     (case bbox of
        [x1, y1, x2, y2] \<Rightarrow>
          if padding_ratio cfg > 0 then
            let width = x2 - x1;
                height = y2 - y1;
                pad_w = py_int (of_int width * padding_ratio cfg);
                pad_h = py_int (of_int height * padding_ratio cfg);
                x1' = max 0 (x1 - pad_w);
                y1' = max 0 (y1 - pad_h);
                x2' = min (int (ncols image0)) (x2 + pad_w);
                y2' = min (int (nrows image0)) (y2 + pad_h)
            in Inr (slice2d image0 y1' y2' x1' x2')
          else Inr (slice2d image0 y1 y2 x1 x2)
      | _ \<Rightarrow> Inl (ValueError ''wrong number of values to unpack (expected 4)''))"

section \<open>External libraries\<close>

text \<open>
  The detector, OpenCV, numpy, Tesseract, MLflow and the file system are outside the
  repository: each call is a parameter that returns its result or raises.
\<close>

record raw_box =
  xyxy :: "real \<times> real \<times> real \<times> real"
  box_conf :: real
  box_cls :: int

record yolo =
  yolo_run :: "ndarray \<Rightarrow> real \<Rightarrow> real \<Rightarrow> exn + raw_box list option list"
  yolo_names :: "int \<Rightarrow> string option"

record ocr_data =
  data_text :: "string list"
  data_conf :: "real list"

record libs =
  cv_imread :: "string \<Rightarrow> ndarray option"
  cv_rgb2bgr :: "ndarray \<Rightarrow> exn + ndarray"
  cv_bgr2gray :: "ndarray \<Rightarrow> exn + ndarray"
  cv_denoise :: "ndarray \<Rightarrow> exn + ndarray"
  cv_clahe :: "ndarray \<Rightarrow> exn + ndarray"
  np_mean :: "ndarray \<Rightarrow> real"
  cv_scale_abs :: "real \<Rightarrow> real \<Rightarrow> ndarray \<Rightarrow> exn + ndarray"
  cv_resize :: "ndarray \<Rightarrow> int \<Rightarrow> int \<Rightarrow> exn + ndarray"
  cv_adaptive_threshold :: "ndarray \<Rightarrow> exn + ndarray"
  cv_otsu_threshold :: "ndarray \<Rightarrow> exn + ndarray"
  image_to_data :: "ndarray \<Rightarrow> string \<Rightarrow> exn + ocr_data"
  mlflow_log :: "(string \<times> real) list \<Rightarrow> exn + unit"
  mlflow_set_experiment :: "string \<Rightarrow> exn + unit"
  read_config :: "string \<Rightarrow> exn + pipeline_config"
  path_exists :: "string \<Rightarrow> bool"
  yolo_load :: "string \<Rightarrow> exn + yolo"
  decode_upload :: "string \<Rightarrow> exn + ndarray"

section \<open>Inference pipeline\<close>

text \<open>
  The pipeline object: the configuration it loaded and its detector, \<open>None\<close> while no
  model is loaded. Its dictionaries are records: a detection, the result of the text
  recognition and the detection extended with it; the result of one image is one of the two
  dictionaries \<open>predict_image\<close> builds.
\<close>

record inference_pipeline =
  config :: pipeline_config
  yolo_model :: "yolo option"

record detection =
  bbox :: "int list"
  confidence :: real
  class_id :: int
  class_name :: string

record ocr_result =
  ocr_text :: string
  ocr_confidence :: real
  raw_text :: string
  word_count :: int

record prediction = detection +
  ocr :: ocr_result
  has_text :: bool

datatype frame_result =
    Frame (image_shape: "int list") (detections_count: int) (results: "prediction list")
      (processing_time: real) (pipeline_version: string)
  | FrameError (error: string) (detections_count: int) (results: "prediction list")
      (processing_time: real)

datatype image_input = Path string | PILImage ndarray | Array ndarray

text \<open>\<open>RoadSignInferencePipeline.load_models\<close>: the new pipeline and the returned flag.\<close>

definition load_models ::
  "libs \<Rightarrow> inference_pipeline \<Rightarrow> string option \<Rightarrow> inference_pipeline \<times> bool" where
  "load_models lib self yolo_model_path =
     (case (case yolo_model_path of
              Some p \<Rightarrow>
                if p \<noteq> [] \<and> path_exists lib p then yolo_load lib p
                else yolo_load lib (architecture (config self) @ ''.pt'')
            | None \<Rightarrow> yolo_load lib (architecture (config self) @ ''.pt'')) of
        Inr m \<Rightarrow> (self\<lparr>yolo_model := Some m\<rparr>, True)
      | Inl e \<Rightarrow> (self, False))"

text \<open>
  \<open>RoadSignInferencePipeline.__init__\<close>: the flag of \<open>load_models\<close> is not read.
\<close>

definition init_pipeline :: "libs \<Rightarrow> string option \<Rightarrow> string \<Rightarrow> exn + inference_pipeline" where
  "init_pipeline lib yolo_model_path config_path =
     (case read_config lib config_path of
        Inl e \<Rightarrow> Inl e
      | Inr cfg \<Rightarrow>
          let self = fst (load_models lib \<lparr>config = cfg, yolo_model = None\<rparr> yolo_model_path)
          in (case mlflow_set_experiment lib ''RoadSign_E2E_Pipeline'' of
                Inl e \<Rightarrow> Inl e
              | Inr u \<Rightarrow> Inr self))"

text \<open>\<open>RoadSignInferencePipeline.preprocess_image\<close>.\<close>

definition preprocess_image :: "libs \<Rightarrow> image_input \<Rightarrow> exn + ndarray" where
  "preprocess_image lib image0 =
     bind_exn
       (case image0 of
          Path p \<Rightarrow>
            (case cv_imread lib p of
               None \<Rightarrow> Inl (ValueError (''Impossible de charger l'' @ [CHR 0x27] @ ''image: '' @ p))
             | Some img \<Rightarrow> Inr img)
        | PILImage a \<Rightarrow> cv_rgb2bgr lib a
        | Array a \<Rightarrow> Inr a)
       (\<lambda>img. if array_size img = 0 then Inl (ValueError ''Image invalide ou vide'')
              else Inr img)"

text \<open>\<open>RoadSignInferencePipeline.detect_road_signs\<close>: the loop over the boxes of one
  result, the loop over the results, and the method.\<close>

fun detect_boxes ::
  "roi_config \<Rightarrow> yolo \<Rightarrow> int list \<Rightarrow> raw_box list \<Rightarrow> detection list \<Rightarrow> exn + detection list" where
  "detect_boxes cfg m shp [] detections = Inr detections"
| "detect_boxes cfg m shp (box # boxes) detections =
     (case xyxy box of
        (x1, y1, x2, y2) \<Rightarrow>
          (case validate_detection cfg x1 y1 x2 y2 shp of
             Inl e \<Rightarrow> Inl e
           | Inr valid \<Rightarrow>
               detect_boxes cfg m shp boxes
                 (if valid then
                    detections @
                      [\<lparr>bbox = [py_int x1, py_int y1, py_int x2, py_int y2],
                        confidence = box_conf box,
                        class_id = box_cls box,
                        class_name = (case yolo_names m (box_cls box) of
                                        Some n \<Rightarrow> n
                                      | None \<Rightarrow> ''class_'' @ show_int (box_cls box))\<rparr>]
                  else detections)))"

fun detect_results ::
  "roi_config \<Rightarrow> yolo \<Rightarrow> int list \<Rightarrow> raw_box list option list \<Rightarrow> detection list
     \<Rightarrow> exn + detection list" where
  "detect_results cfg m shp [] detections = Inr detections"
| "detect_results cfg m shp (None # rs) detections = detect_results cfg m shp rs detections"
| "detect_results cfg m shp (Some boxes # rs) detections =
     (case detect_boxes cfg m shp boxes detections of
        Inl e \<Rightarrow> Inl e
      | Inr ds \<Rightarrow> detect_results cfg m shp rs ds)"

definition detect_road_signs :: "inference_pipeline \<Rightarrow> ndarray \<Rightarrow> exn + detection list" where
  "detect_road_signs self image0 =
     (case yolo_model self of
        None \<Rightarrow> Inl (ValueError ''Modele YOLO non charge'')
      | Some m \<Rightarrow>
          (case yolo_run m image0 (detection_min (config self)) (detection_nms (config self)) of
             Inl e \<Rightarrow> Inl e
           | Inr rs \<Rightarrow> detect_results (roi (config self)) m (shape image0) rs []))"

text \<open>\<open>RoadSignInferencePipeline.preprocess_roi_for_ocr\<close>.\<close>

definition preprocess_roi_for_ocr :: "libs \<Rightarrow> preprocessing_config \<Rightarrow> ndarray \<Rightarrow> exn + ndarray" where
  "preprocess_roi_for_ocr lib cfg roi_img =
     bind_exn (if nchan roi_img \<noteq> None then cv_bgr2gray lib roi_img else Inr roi_img) (\<lambda>p1.
     bind_exn (if denoise cfg then cv_denoise lib p1 else Inr p1) (\<lambda>p2.
     bind_exn (if contrast_enhancement cfg then cv_clahe lib p2 else Inr p2) (\<lambda>p3.
     bind_exn (if brightness_adjustment cfg \<and> np_mean lib p3 < 100
               then cv_scale_abs lib (12 / 10) 30 p3 else Inr p3) (\<lambda>p4.
     bind_exn (let current_height = int (nrows p4) in
               if current_height < min_height cfg then
                 (if current_height = 0 then Inl (ZeroDivisionError ''division by zero'')
                  else
                    let scale_factor = of_int (min_height cfg) / of_int current_height;
                        new_width = py_int (real (ncols p4) * scale_factor)
                    in cv_resize lib p4 new_width (min_height cfg))
               else Inr p4) (\<lambda>p5.
     if threshold_method cfg = ''adaptive'' then cv_adaptive_threshold lib p5
     else if threshold_method cfg = ''otsu'' then cv_otsu_threshold lib p5
     else Inr p5)))))"

text \<open>
  \<open>RoadSignInferencePipeline.recognize_text\<close>: the loop over the words of the engine's
  answer, the body of the \<open>try\<close> block, and the method with its handler.
\<close>

fun collect_words ::
  "real list \<Rightarrow> nat \<Rightarrow> string list \<Rightarrow> string list \<Rightarrow> int list \<Rightarrow> exn + string list \<times> int list" where
  "collect_words confs i [] text_parts confidences = Inr (text_parts, confidences)"
| "collect_words confs i (word # ws) text_parts confidences =
     (if py_strip word \<noteq> [] then
        (if i < length confs then
           (let conf = py_int (confs ! i) in
            if conf > 0
            then collect_words confs (i + 1) ws (text_parts @ [py_strip word]) (confidences @ [conf])
            else collect_words confs (i + 1) ws text_parts confidences)
         else Inl (IndexError ''list index out of range''))
      else collect_words confs (i + 1) ws text_parts confidences)"

definition recognize_text_body :: "libs \<Rightarrow> pipeline_config \<Rightarrow> ndarray \<Rightarrow> exn + ocr_result" where
  "recognize_text_body lib cfg roi_img =
     bind_exn (image_to_data lib roi_img (tesseract_config cfg)) (\<lambda>data.
     bind_exn (collect_words (data_conf data) 0 (data_text data) [] []) (\<lambda>(text_parts, confidences).
       let txt = (if text_parts \<noteq> [] then py_join '' '' text_parts else []);
           avg_confidence =
             (if confidences \<noteq> []
              then (of_int (sum_list confidences) / of_nat (length confidences)) / 100
              else 0)
       in bind_exn (postprocess_text (postprocessing cfg) txt) (\<lambda>processed_text.
            Inr \<lparr>ocr_text = processed_text, ocr_confidence = avg_confidence,
                 raw_text = txt, word_count = int (length text_parts)\<rparr>)))"

definition empty_ocr_result :: ocr_result where
  "empty_ocr_result = \<lparr>ocr_text = [], ocr_confidence = 0, raw_text = [], word_count = 0\<rparr>"

definition recognize_text :: "libs \<Rightarrow> pipeline_config \<Rightarrow> ndarray \<Rightarrow> exn + ocr_result" where
  "recognize_text lib cfg roi_img =
     (case recognize_text_body lib cfg roi_img of
        Inl e \<Rightarrow> Inr empty_ocr_result
      | Inr r \<Rightarrow> Inr r)"

text \<open>
  \<open>RoadSignInferencePipeline._log_prediction_metrics\<close>: the metrics it sends, and the
  call, whose failure is swallowed. The mean of no confidence is not a number and is not
  sent.
\<close>

definition prediction_metrics :: "frame_result \<Rightarrow> (string \<times> real) list" where
  "prediction_metrics result =
     [(''detections_count'', of_int (detections_count result)),
      (''processing_time'', processing_time result)]
     @ (let cs = filter (\<lambda>c. c > 0) (map (\<lambda>r. ocr_confidence (ocr r)) (results result))
        in if results result \<noteq> [] \<and> cs \<noteq> []
           then [(''avg_ocr_confidence'', sum_list cs / of_nat (length cs))] else [])
     @ [(''meets_performance_target'', if processing_time result \<le> 2 then 1 else 0)]"

definition log_prediction_metrics :: "libs \<Rightarrow> frame_result \<Rightarrow> unit" where
  "log_prediction_metrics lib result =
     (case mlflow_log lib (prediction_metrics result) of Inl e \<Rightarrow> () | Inr u \<Rightarrow> ())"

text \<open>
  \<open>RoadSignInferencePipeline.predict_image\<close>: the loop over the detections, the body of
  the \<open>try\<close> block, and the method with its handler. \<open>t0\<close> is the clock at entry and
  \<open>t1\<close> the clock when the elapsed time is taken.
\<close>

fun ocr_detections ::
  "libs \<Rightarrow> pipeline_config \<Rightarrow> ndarray \<Rightarrow> detection list \<Rightarrow> prediction list
     \<Rightarrow> exn + prediction list" where
  "ocr_detections lib cfg img [] rs = Inr rs"
| "ocr_detections lib cfg img (d # ds) rs =
     bind_exn (extract_roi (roi cfg) img (bbox d)) (\<lambda>roi_img.
     bind_exn (preprocess_roi_for_ocr lib (preprocessing cfg) roi_img) (\<lambda>roi_processed.
     bind_exn (recognize_text lib cfg roi_processed) (\<lambda>ocr_res.
       ocr_detections lib cfg img ds
         (rs @ [\<lparr>bbox = bbox d, confidence = confidence d, class_id = class_id d,
                  class_name = class_name d, ocr = ocr_res,
                  has_text = (length (ocr_text ocr_res) > 0)\<rparr>]))))"

definition predict_image_body ::
  "libs \<Rightarrow> inference_pipeline \<Rightarrow> image_input \<Rightarrow> real \<Rightarrow> real \<Rightarrow> exn + frame_result" where
  "predict_image_body lib self image0 t0 t1 =
     bind_exn (preprocess_image lib image0) (\<lambda>img.
     bind_exn (detect_road_signs self img) (\<lambda>detections.
     bind_exn (ocr_detections lib (config self) img detections []) (\<lambda>rs.
       let total_time = t1 - t0;
           final_result = Frame (shape img) (int (length detections)) rs total_time ''1.0.0'';
           u = log_prediction_metrics lib final_result
       in Inr final_result)))"

definition predict_image ::
  "libs \<Rightarrow> inference_pipeline \<Rightarrow> image_input \<Rightarrow> real \<Rightarrow> real \<Rightarrow> exn + frame_result" where
  "predict_image lib self image0 t0 t1 =
     (case predict_image_body lib self image0 t0 t1 of
        Inl e \<Rightarrow> Inr (FrameError (str_exn e) 0 [] (t1 - t0))
      | Inr final_result \<Rightarrow> Inr final_result)"

section \<open>Prediction service\<close>

text \<open>
  The module \<open>api/main.py\<close>. Its state is the global pipeline (\<open>None\<close> until it is
  initialised), the global statistics, the records of the module's logger and the
  background tasks queued so far. A log record keeps the level and the values the
  message interpolates.
\<close>

record app_stats =
  total_predictions :: int
  total_detections :: int
  total_processing_time :: real
  start_time :: real

datatype log_record =
    InitStarted
  | InitSucceeded
  | InitFailed exn
  | FileError exn
  | NewPrediction string
  | PredictionSucceeded string int
  | PredictionFailed string exn
  | BatchStarted string nat
  | BatchImageFailed nat string exn
  | BatchDone string

record service_state =
  pipeline :: "inference_pipeline option"
  stats :: app_stats
  service_log :: "log_record list"
  background_tasks :: "(string \<times> int \<times> real) list"

definition logged :: "log_record \<Rightarrow> service_state \<Rightarrow> service_state" where
  "logged r st = st\<lparr>service_log := service_log st @ [r]\<rparr>"

definition initial_stats :: "real \<Rightarrow> app_stats" where
  "initial_stats now =
     \<lparr>total_predictions = 0, total_detections = 0, total_processing_time = 0, start_time = now\<rparr>"

definition initial_state :: "real \<Rightarrow> service_state" where
  "initial_state now =
     \<lparr>pipeline = None, stats = initial_stats now, service_log = [], background_tasks = []\<rparr>"

text \<open>The response models.\<close>

record prediction_response =
  resp_success :: bool
  resp_image_shape :: "int list"
  resp_detections_count :: int
  resp_results :: "prediction list"
  resp_processing_time :: real
  resp_pipeline_version :: string
  resp_request_id :: string

record health_response =
  health_status :: string
  pipeline_loaded :: bool
  health_uptime :: real
  health_total_predictions :: int
  version :: string

record metrics_response =
  metrics_total_predictions :: int
  metrics_total_detections :: int
  average_processing_time :: real
  metrics_uptime :: real
  pipeline_status :: string

text \<open>
  The response model validates its fields: the confidence of each detection lies in
  \<open>[0, 1]\<close>; the other fields have their types by construction.
\<close>

definition response_valid :: "prediction list \<Rightarrow> bool" where
  "response_valid rs = list_all (\<lambda>r. 0 \<le> confidence r \<and> confidence r \<le> 1) rs"

text \<open>\<open>initialize_pipeline\<close>: the pipeline is built with its default arguments.\<close>

definition initialize_pipeline :: "libs \<Rightarrow> service_state \<Rightarrow> service_state \<times> bool" where
  "initialize_pipeline lib st =
     (case init_pipeline lib None ''conf/base/model_config.yml'' of
        Inr p \<Rightarrow> (logged InitSucceeded ((logged InitStarted st)\<lparr>pipeline := Some p\<rparr>), True)
      | Inl e \<Rightarrow> (logged (InitFailed e) (logged InitStarted st), False))"

text \<open>\<open>update_stats\<close>.\<close>

definition update_stats :: "int \<Rightarrow> real \<Rightarrow> app_stats \<Rightarrow> app_stats" where
  "update_stats n t s =
     s\<lparr>total_predictions := total_predictions s + 1,
       total_detections := total_detections s + n,
       total_processing_time := total_processing_time s + t\<rparr>"

text \<open>\<open>process_uploaded_file\<close>: an upload is its declared content type and its bytes.\<close>

record upload_file =
  content_type :: "string option"
  payload :: string

definition process_uploaded_file ::
  "libs \<Rightarrow> upload_file \<Rightarrow> service_state \<Rightarrow> (exn + ndarray) \<times> service_state" where
  "process_uploaded_file lib file st =
     (if content_type file = None \<or> content_type file = Some []
         \<or> \<not> prefix ''image/'' (the (content_type file))
      then (Inl (HTTPException 400
                  (''Type de fichier non supporte: ''
                   @ (case content_type file of None \<Rightarrow> ''None'' | Some c \<Rightarrow> c)
                   @ ''. Utilisez une image.'')), st)
      else
        (case decode_upload lib (payload file) of
           Inr bgr_image \<Rightarrow> (Inr bgr_image, st)
         | Inl e \<Rightarrow>
             (Inl (HTTPException 400
                     (''Impossible de traiter l'' @ [CHR 0x27] @ ''image: '' @ str_exn e)),
              logged (FileError e) st)))"

text \<open>
  The endpoint \<open>/predict\<close> (\<open>predict_image\<close> of \<open>api/main.py\<close>): the handlers of its
  \<open>try\<close> block, and the endpoint. \<open>request_id\<close> is the fresh identifier; \<open>t0\<close> and \<open>t1\<close>
  are the clock readings of the pipeline.
\<close>

definition predict_handlers ::
  "string \<Rightarrow> exn \<Rightarrow> service_state \<Rightarrow> (exn + prediction_response) \<times> service_state" where
  "predict_handlers request_id e st =
     (case e of
        HTTPException code detail \<Rightarrow> (Inl e, st)
      | _ \<Rightarrow> (Inl (HTTPException 500 (''Erreur interne: '' @ str_exn e)),
              logged (PredictionFailed request_id e) st))"

definition api_predict_image ::
  "libs \<Rightarrow> string \<Rightarrow> real \<Rightarrow> real \<Rightarrow> upload_file \<Rightarrow> service_state
     \<Rightarrow> (exn + prediction_response) \<times> service_state" where
  "api_predict_image lib request_id t0 t1 file st =
     (case pipeline st of
        None \<Rightarrow>
          (Inl (HTTPException 503 ''Pipeline ML non initialise - service indisponible''), st)
      | Some p \<Rightarrow>
          (case process_uploaded_file lib file (logged (NewPrediction request_id) st) of
             (Inl e, st1) \<Rightarrow> predict_handlers request_id e st1
           | (Inr image0, st1) \<Rightarrow>
               (case predict_image lib p (Array image0) t0 t1 of
                  Inl e \<Rightarrow> predict_handlers request_id e st1
                | Inr (FrameError err n rs t) \<Rightarrow>
                    predict_handlers request_id
                      (HTTPException 500 (''Erreur de prediction: '' @ err)) st1
                | Inr (Frame shp n rs t v) \<Rightarrow>
                    (let st2 = st1\<lparr>stats := update_stats n t (stats st1)\<rparr> in
                     if \<not> response_valid rs
                     then predict_handlers request_id (LibraryError ''ValidationError'') st2
                     else
                       (let response =
                              \<lparr>resp_success = True, resp_image_shape = shp,
                               resp_detections_count = n, resp_results = rs,
                               resp_processing_time = t, resp_pipeline_version = v,
                               resp_request_id = request_id\<rparr>;
                            st3 = st2\<lparr>background_tasks :=
                                        background_tasks st2 @ [(request_id, n, t)]\<rparr>
                        in (Inr response, logged (PredictionSucceeded request_id n) st3))))))"





text \<open>The endpoints \<open>/health\<close> and \<open>/metrics\<close>; \<open>now\<close> is the clock.\<close>

definition health_check :: "service_state \<Rightarrow> real \<Rightarrow> exn + health_response" where
  "health_check st now =
     (let uptime = now - start_time (stats st) in
      Inr \<lparr>health_status = (if pipeline st \<noteq> None then ''healthy'' else ''degraded''),
           pipeline_loaded = (pipeline st \<noteq> None),
           health_uptime = uptime,
           health_total_predictions = total_predictions (stats st),
           version = ''1.0.0''\<rparr>)"

definition get_metrics :: "service_state \<Rightarrow> real \<Rightarrow> exn + metrics_response" where
  "get_metrics st now =
     (let uptime = now - start_time (stats st);
          avg_processing_time =
            (if total_predictions (stats st) > 0
             then total_processing_time (stats st) / of_int (total_predictions (stats st))
             else 0)
      in Inr \<lparr>metrics_total_predictions = total_predictions (stats st),
              metrics_total_detections = total_detections (stats st),
              average_processing_time = avg_processing_time,
              metrics_uptime = uptime,
              pipeline_status = (if pipeline st \<noteq> None then ''loaded'' else ''not_loaded'')\<rparr>)"

section \<open>Test doubles\<close>

text \<open>
  Concrete collaborators, after the mocks of the repository's tests: the configuration
  of \<open>test_inference_pipeline.py\<close>, libraries whose image operations return their
  input, a text engine that answers \<open>['', 'STOP', '']\<close> with confidences \<open>[0, 95, 0]\<close>,
  a decoder that refuses the payload \<open>corrupt\<close>, a detector that finds one sign, and
  no model weights on disk.
\<close>

definition test_postprocessing :: postprocessing_config where
  "test_postprocessing =
     \<lparr>remove_special_chars = True, known_patterns = [YStr ''STOP'', YStr ''YIELD'']\<rparr>"

definition test_config :: pipeline_config where
  "test_config =
     \<lparr>detection_min = 3 / 10, detection_nms = 45 / 100, roi = test_roi_config,
      architecture = ''yolov8n'', tesseract_config = ''--psm 6 --oem 3'',
      preprocessing =
        \<lparr>denoise = True, contrast_enhancement = True, brightness_adjustment = True,
         min_height = 32, threshold_method = ''adaptive''\<rparr>,
      postprocessing = test_postprocessing\<rparr>"

definition blank_image :: "nat \<Rightarrow> nat \<Rightarrow> ndarray" where
  "blank_image h w = \<lparr>nrows = h, ncols = w, nchan = Some 3, sample = (\<lambda>i j k. 255)\<rparr>"

definition test_ocr_data :: ocr_data where
  "test_ocr_data = \<lparr>data_text = ['''', ''STOP'', ''''], data_conf = [0, 95, 0]\<rparr>"

definition test_libs :: libs where
  "test_libs =
     \<lparr>cv_imread = (\<lambda>p. None),
      cv_rgb2bgr = Inr,
      cv_bgr2gray = (\<lambda>a. Inr (a\<lparr>nchan := None\<rparr>)),
      cv_denoise = Inr,
      cv_clahe = Inr,
      np_mean = (\<lambda>a. 255),
      cv_scale_abs = (\<lambda>alpha beta a. Inr a),
      cv_resize = (\<lambda>a w h. Inr (a\<lparr>nrows := nat h, ncols := nat w\<rparr>)),
      cv_adaptive_threshold = Inr,
      cv_otsu_threshold = Inr,
      image_to_data = (\<lambda>a c. Inr test_ocr_data),
      mlflow_log = (\<lambda>ms. Inr ()),
      mlflow_set_experiment = (\<lambda>n. Inr ()),
      read_config = (\<lambda>p. Inr test_config),
      path_exists = (\<lambda>p. False),
      yolo_load = (\<lambda>p. Inl (LibraryError ''cannot load the model weights'')),
      decode_upload =
        (\<lambda>bytes. if bytes = ''corrupt'' then Inl (LibraryError ''cannot identify image file'')
                 else Inr (blank_image 200 300))\<rparr>"


definition jpeg_upload :: "string \<Rightarrow> upload_file" where
  "jpeg_upload bytes = \<lparr>content_type = Some ''image/jpeg'', payload = bytes\<rparr>"



section \<open>Requests in sequence\<close>








section \<open>Lemmas on strings\<close>

declare show_nat.simps [simp del]

lemma py_in_sublist: "py_in p s = sublist p s"
proof (induction s)
  case Nil
  then show ?case by simp
next
  case (Cons a s)
  have "take (length p) (a # s) = p \<longleftrightarrow> prefix p (a # s)"
    by (metis append_eq_conv_conj prefix_def append_take_drop_id)
  then show ?case
    using Cons by (simp add: sublist_Cons_right)
qed

lemma py_in_refl [simp]: "py_in s s"
  by (simp add: py_in_sublist)

lemma py_in_trans: "py_in a b \<Longrightarrow> py_in b c \<Longrightarrow> py_in a c"
  unfolding py_in_sublist by (rule sublist_order.order_trans)

lemma of_char_upper:
  "(of_char (upper_char c) :: nat) =
     (if 97 \<le> (of_char c :: nat) \<and> (of_char c :: nat) \<le> 122 then of_char c - 32 else of_char c)"
  by (auto simp: upper_char_def Let_def)

lemma isspace_upper [simp]: "isspace (upper_char c) = isspace c"
  unfolding isspace_def Let_def of_char_upper by auto

lemma upper_upper [simp]: "upper_char (upper_char c) = upper_char c"
proof -
  have "(of_char (upper_char (upper_char c)) :: nat) = of_char (upper_char c)"
    unfolding of_char_upper by auto
  then show ?thesis by (metis char_of_char)
qed

lemma py_upper_idem [simp]: "py_upper (py_upper s) = py_upper s"
  by (simp add: py_upper_def)

lemma isspace_space [simp]: "isspace CHR '' ''"
  by (simp add: isspace_def)

lemma py_split_words_ok: "list_all word_ok (py_split s)"
  by (induction s rule: py_split.induct) (auto simp: word_ok_def split: list.splits)

lemma py_split_word_space:
  "word_ok w \<Longrightarrow> py_split (w @ CHR '' '' # rest) = w # py_split rest"
proof (induction w rule: py_split.induct)
  case 1
  then show ?case by (simp add: word_ok_def)
next
  case (2 c)
  then show ?case by (cases rest) (auto simp: word_ok_def)
next
  case (3 c d ds)
  then show ?case by (auto simp: word_ok_def)
qed

lemma py_split_word: "word_ok w \<Longrightarrow> py_split w = [w]"
  by (induction w rule: py_split.induct) (auto simp: word_ok_def)

lemma py_split_join: "list_all word_ok ws \<Longrightarrow> py_split (py_join '' '' ws) = ws"
proof (induction ws rule: induct_list012)
  case 1
  then show ?case by simp
next
  case (2 w)
  then show ?case by (simp add: py_split_word)
next
  case (3 w v ws)
  then show ?case by (simp add: py_split_word_space)
qed

lemma collapse_idem: "collapse (collapse s) = collapse s"
  by (simp add: collapse_def py_split_join py_split_words_ok)

lemma py_split_upper: "py_split (py_upper s) = map py_upper (py_split s)"
  by (induction s rule: py_split.induct) (auto simp: py_upper_def split: list.splits)

lemma py_join_upper: "py_join '' '' (map py_upper ws) = py_upper (py_join '' '' ws)"
proof (induction ws rule: induct_list012)
  case (3 w v ws)
  then show ?case by (simp add: py_upper_def upper_char_def)
qed (simp_all add: py_upper_def)

lemma collapse_upper: "collapse (py_upper s) = py_upper (collapse s)"
  by (simp add: collapse_def py_split_upper py_join_upper)

lemma match_patterns_in: "py_in (py_upper (match_patterns ps n)) (py_upper n)"
  by (induction ps n rule: match_patterns.induct) simp_all

lemma match_patterns_fixed:
  assumes "list_all pattern_collapsed ps" and "py_upper (collapse n) = n"
  shows "py_upper (collapse (match_patterns ps n)) = match_patterns ps n
         \<and> match_patterns ps (match_patterns ps n) = match_patterns ps n"
  using assms
proof (induction ps n rule: match_patterns.induct)
  case (1 processed)
  then show ?case by simp
next
  case (2 pattern ps processed)
  show ?case
  proof (cases "py_in (py_upper pattern) (py_upper processed)")
    case True
    from 2 have "collapse pattern = pattern"
      by simp
    then have "py_upper (collapse (py_upper pattern)) = py_upper pattern"
      by (simp add: collapse_upper)
    with True show ?thesis by simp
  next
    case False
    with 2 have IH:
      "py_upper (collapse (match_patterns ps processed)) = match_patterns ps processed"
      "match_patterns ps (match_patterns ps processed) = match_patterns ps processed"
      by simp_all
    have "\<not> py_in (py_upper pattern) (py_upper (match_patterns ps processed))"
      using False match_patterns_in [of ps processed] py_in_trans by blast
    with False IH show ?thesis by simp
  qed
next
  case (3 ps processed)
  then show ?case by simp
qed

lemma strip_class_refused: "class_items (class_toks special_chars_class) = Inl bad_character_range"
  by (simp add: special_chars_class_def)

section \<open>Lemmas on the test doubles\<close>

lemma test_collect_words:
  "collect_words [0, 95, 0] 0 ['''', ''STOP'', ''''] [] [] = Inr ([''STOP''], [95])"
  by (simp add: py_strip_def py_int_def isspace_def)

lemma strip_raises:
  "postprocess_text (cfg\<lparr>remove_special_chars := True\<rparr>) (c # cs) = Inl bad_character_range"
  by (simp add: postprocess_text_def re_sub_negated_class_def strip_class_refused)

lemma test_postprocess_raises:
  "postprocess_text test_postprocessing (c # cs) = Inl bad_character_range"
proof -
  have "test_postprocessing = test_postprocessing\<lparr>remove_special_chars := True\<rparr>"
    by (simp add: test_postprocessing_def)
  then show ?thesis
    by (metis strip_raises)
qed

lemma test_recognize:
  "recognize_text test_libs test_config r
     = Inr \<lparr>ocr_text = [], ocr_confidence = 0, raw_text = [], word_count = 0\<rparr>"
  by (simp add: recognize_text_def recognize_text_body_def bind_exn_def test_ocr_data_def
      test_collect_words test_postprocess_raises empty_ocr_result_def test_libs_def test_config_def
      del: collect_words.simps)







lemma test_upload_ok:
  "process_uploaded_file test_libs (jpeg_upload ''ok'') st = (Inr (blank_image 200 300), st)"
  by (simp add: process_uploaded_file_def jpeg_upload_def test_libs_def)


section \<open>Lemmas on the region extractor\<close>

lemma py_int_nonneg: "0 \<le> a \<Longrightarrow> 0 \<le> py_int a"
  by (simp add: py_int_def)

lemma py_int_mono: "0 \<le> a \<Longrightarrow> a \<le> b \<Longrightarrow> py_int a \<le> py_int b"
  by (simp add: py_int_def floor_mono)

lemma slice2d_in_bounds:
  assumes "0 \<le> r1" "r1 \<le> r2" "r2 \<le> int (nrows a)" "0 \<le> c1" "c1 \<le> c2" "c2 \<le> int (ncols a)"
  shows "nrows (slice2d a r1 r2 c1 c2) = nat (r2 - r1)"
    and "ncols (slice2d a r1 r2 c1 c2) = nat (c2 - c1)"
    and "sample (slice2d a r1 r2 c1 c2) i j k = sample a (nat r1 + i) (nat c1 + j) k"
  using assms by (auto simp: slice2d_def slice_index_def Let_def min_def)

lemma extract_roi_dims:
  assumes "0 \<le> x1" "x1 < x2" "x2 \<le> int (ncols image0)"
    and "0 \<le> y1" "y1 < y2" "y2 \<le> int (nrows image0)"
    and "0 \<le> r"
  shows "\<exists>r_img. extract_roi (cfg\<lparr>padding_ratio := r\<rparr>) image0 [x1, y1, x2, y2] = Inr r_img
           \<and> nrows r_img = nat (min (int (nrows image0)) (y2 + py_int (of_int (y2 - y1) * r))
                                 - max 0 (y1 - py_int (of_int (y2 - y1) * r)))
           \<and> ncols r_img = nat (min (int (ncols image0)) (x2 + py_int (of_int (x2 - x1) * r))
                                 - max 0 (x1 - py_int (of_int (x2 - x1) * r)))"
proof (cases "r > 0")
  case True
  define pw where "pw = py_int (of_int (x2 - x1) * r)"
  define ph where "ph = py_int (of_int (y2 - y1) * r)"
  have "0 \<le> pw" "0 \<le> ph"
    using assms by (simp_all add: pw_def ph_def py_int_nonneg)
  then have b: "0 \<le> max 0 (y1 - ph)" "max 0 (y1 - ph) \<le> min (int (nrows image0)) (y2 + ph)"
      "min (int (nrows image0)) (y2 + ph) \<le> int (nrows image0)"
      "0 \<le> max 0 (x1 - pw)" "max 0 (x1 - pw) \<le> min (int (ncols image0)) (x2 + pw)"
      "min (int (ncols image0)) (x2 + pw) \<le> int (ncols image0)"
    using assms by auto
  from True slice2d_in_bounds(1,2) [OF b] show ?thesis
    by (simp add: extract_roi_def Let_def pw_def ph_def)
next
  case False
  with assms have r: "r = 0" by simp
  have b: "0 \<le> y1" "y1 \<le> y2" "y2 \<le> int (nrows image0)"
      "0 \<le> x1" "x1 \<le> x2" "x2 \<le> int (ncols image0)"
    using assms by auto
  from slice2d_in_bounds(1,2) [OF b] assms show ?thesis
    by (simp add: extract_roi_def r py_int_def)
qed

section \<open>Lemmas on the batch loop\<close>





section \<open>Lemmas on the statistics\<close>


lemma logged_stats [simp]: "stats (logged r st) = stats st"
  by (simp add: logged_def)









section \<open>Lemmas on the health and metrics queries\<close>

lemma health_degraded_without_pipeline:
  assumes "pipeline st = None"
  shows "\<exists>h m. health_check st now = Inr h \<and> health_status h = ''degraded''
           \<and> \<not> pipeline_loaded h
           \<and> get_metrics st now = Inr m \<and> pipeline_status m = ''not_loaded''"
  using assms by (simp add: health_check_def get_metrics_def)

lemma health_queries_return:
  "(\<exists>h. health_check st now = Inr h) \<and> (\<exists>m. get_metrics st now = Inr m)"
  by (simp add: health_check_def get_metrics_def Let_def)

section \<open>Theorems\<close>

text \<open>
  C1. For every input image (a path, a decoded object or an array), every pipeline and
  every behaviour of the libraries, \<open>predict_image\<close> returns and raises nothing. What it
  returns is either the success result, with the shape of the image, the number of
  detections, the results, the elapsed time and the pipeline version \<open>1.0.0\<close>, or the
  error result, with a message, zero detections, no results and the elapsed time.
\<close>

theorem predict_image_never_raises:
  "(\<exists>shp n rs. predict_image lib self image0 t0 t1 = Inr (Frame shp n rs (t1 - t0) ''1.0.0''))
   \<or> (\<exists>msg. predict_image lib self image0 t0 t1 = Inr (FrameError msg 0 [] (t1 - t0)))"
proof (cases "predict_image_body lib self image0 t0 t1")
  case (Inl e)
  then show ?thesis by (simp add: predict_image_def)
next
  case (Inr r)
  then have "\<exists>shp n rs. r = Frame shp n rs (t1 - t0) ''1.0.0''"
    by (auto simp: predict_image_body_def bind_exn_def Let_def split: sum.splits)
  with Inr show ?thesis by (auto simp: predict_image_def)
qed

text \<open>
  C2. For every integer box \<open>(x1, y1, x2, y2)\<close> and every image shape \<open>(h, w, ...)\<close> the
  geometry validator returns a boolean and does not raise. It returns false exactly when
  a coordinate lies outside \<open>[0, w] \<times> [0, h]\<close>, or \<open>x1 \<ge> x2\<close>, or \<open>y1 \<ge> y2\<close>, or the
  area \<open>(x2 - x1) * (y2 - y1)\<close> is below \<open>min_area\<close>, or width / height exceeds
  \<open>max_aspect_ratio\<close> (a zero height counting as an infinite ratio). The box
  \<open>(50, 50, 350, 100)\<close> with \<open>max_aspect_ratio = 5.0\<close> is rejected in a 200 x 300 image,
  and also in a 200 x 400 image, where only its aspect ratio of 6 is at fault.
\<close>

theorem validate_detection_spec:
  "validate_detection cfg (of_int x1) (of_int y1) (of_int x2) (of_int y2) (h # w # rest) =
     Inr (\<not> (x1 < 0 \<or> w < x1 \<or> x2 < 0 \<or> w < x2 \<or> y1 < 0 \<or> h < y1 \<or> y2 < 0 \<or> h < y2
             \<or> x2 \<le> x1 \<or> y2 \<le> y1
             \<or> real_of_int ((x2 - x1) * (y2 - y1)) < min_area cfg
             \<or> y2 - y1 = 0
             \<or> real_of_int (x2 - x1) / real_of_int (y2 - y1) > max_aspect_ratio cfg))
   \<and> validate_detection test_roi_config 50 50 350 100 [200, 300, 3] = Inr False
   \<and> validate_detection test_roi_config 50 50 350 100 [200, 400, 3] = Inr False"
proof (intro conjI)
  show "validate_detection cfg (of_int x1) (of_int y1) (of_int x2) (of_int y2) (h # w # rest) =
     Inr (\<not> (x1 < 0 \<or> w < x1 \<or> x2 < 0 \<or> w < x2 \<or> y1 < 0 \<or> h < y1 \<or> y2 < 0 \<or> h < y2
             \<or> x2 \<le> x1 \<or> y2 \<le> y1
             \<or> real_of_int ((x2 - x1) * (y2 - y1)) < min_area cfg
             \<or> y2 - y1 = 0
             \<or> real_of_int (x2 - x1) / real_of_int (y2 - y1) > max_aspect_ratio cfg))"
  proof (cases "x1 < 0 \<or> y1 < 0 \<or> w < x2 \<or> h < y2 \<or> x2 \<le> x1 \<or> y2 \<le> y1")
    case True
    then show ?thesis
      by (auto simp: validate_detection_def)
  next
    case False
    then have "0 \<le> x1" "0 \<le> y1" "x2 \<le> w" "y2 \<le> h" "x1 < x2" "y1 < y2"
      by auto
    then show ?thesis
      by (auto simp: validate_detection_def Let_def)
  qed
  show "validate_detection test_roi_config 50 50 350 100 [200, 300, 3] = Inr False"
    by (simp add: validate_detection_def test_roi_config_def)
  show "validate_detection test_roi_config 50 50 350 100 [200, 400, 3] = Inr False"
    by (simp add: validate_detection_def test_roi_config_def)
qed



text \<open>
  C4, as amended. For every prediction request on which the pipeline reports an error,
  the service answers with the client-facing error \<open>500\<close> that carries the pipeline's
  message, and leaves the statistics unchanged: \<open>total_predictions\<close>,
  \<open>total_detections\<close> and \<open>total_processing_time\<close> keep their values. The request is
  recorded in the log of the service only, and no background task is queued.
\<close>

theorem api_predict_image_pipeline_error:
  assumes "pipeline st = Some p"
    and "process_uploaded_file lib file (logged (NewPrediction request_id) st) = (Inr image0, st1)"
    and "predict_image lib p (Array image0) t0 t1 = Inr (FrameError err n rs t)"
  shows "\<exists>st'. api_predict_image lib request_id t0 t1 file st
             = (Inl (HTTPException 500 (''Erreur de prediction: '' @ err)), st')
           \<and> stats st' = stats st
           \<and> service_log st' = service_log st @ [NewPrediction request_id]
           \<and> background_tasks st' = background_tasks st
           \<and> pipeline st' = pipeline st"
proof -
  from assms(2) have "st1 = logged (NewPrediction request_id) st"
    by (auto simp: process_uploaded_file_def split: if_splits sum.splits)
  with assms show ?thesis
    by (simp add: api_predict_image_def predict_handlers_def logged_def)
qed

theorem api_predict_image_pipeline_error_witness:
  "pipeline ((initial_state 0)\<lparr>pipeline := Some \<lparr>config = test_config, yolo_model = None\<rparr>\<rparr>)
     = Some \<lparr>config = test_config, yolo_model = None\<rparr>
   \<and> process_uploaded_file test_libs (jpeg_upload ''ok'')
        (logged (NewPrediction ''r1'')
           ((initial_state 0)\<lparr>pipeline := Some \<lparr>config = test_config, yolo_model = None\<rparr>\<rparr>))
       = (Inr (blank_image 200 300),
          logged (NewPrediction ''r1'')
           ((initial_state 0)\<lparr>pipeline := Some \<lparr>config = test_config, yolo_model = None\<rparr>\<rparr>))
   \<and> predict_image test_libs \<lparr>config = test_config, yolo_model = None\<rparr>
        (Array (blank_image 200 300)) 1 2
       = Inr (FrameError ''Modele YOLO non charge'' 0 [] 1)
   \<and> (\<exists>st'. api_predict_image test_libs ''r1'' 1 2 (jpeg_upload ''ok'')
               ((initial_state 0)\<lparr>pipeline := Some \<lparr>config = test_config, yolo_model = None\<rparr>\<rparr>)
             = (Inl (HTTPException 500 (''Erreur de prediction: '' @ ''Modele YOLO non charge'')), st')
           \<and> stats st' = stats (initial_state 0)
           \<and> service_log st' = [NewPrediction ''r1''])"
proof -
  let ?p = "\<lparr>config = test_config, yolo_model = None\<rparr>"
  let ?st = "(initial_state 0)\<lparr>pipeline := Some ?p\<rparr>"
  have h1: "pipeline ?st = Some ?p"
    by simp
  have h2: "process_uploaded_file test_libs (jpeg_upload ''ok'') (logged (NewPrediction ''r1'') ?st)
       = (Inr (blank_image 200 300), logged (NewPrediction ''r1'') ?st)"
    by (simp add: process_uploaded_file_def test_libs_def jpeg_upload_def)
  have h3: "predict_image test_libs ?p (Array (blank_image 200 300)) 1 2
       = Inr (FrameError ''Modele YOLO non charge'' 0 [] 1)"
    by (simp add: predict_image_def predict_image_body_def bind_exn_def preprocess_image_def
        detect_road_signs_def array_size_def blank_image_def)
  from api_predict_image_pipeline_error [OF h1 h2 h3] h1 h2 h3 show ?thesis
    by (auto simp: initial_state_def)
qed

text \<open>
  C4, as stated, fails: the request above, on which the pipeline reports that no model
  is loaded, is answered with the error \<open>500\<close> and \<open>total_predictions\<close> stays at \<open>0\<close>;
  it is not incremented to \<open>1\<close>.
\<close>

theorem api_predict_image_error_not_counted:
  "fst (api_predict_image test_libs ''r1'' 1 2 (jpeg_upload ''ok'')
          ((initial_state 0)\<lparr>pipeline := Some \<lparr>config = test_config, yolo_model = None\<rparr>\<rparr>))
     = Inl (HTTPException 500 ''Erreur de prediction: Modele YOLO non charge'')
   \<and> total_predictions (stats (initial_state 0)) = 0
   \<and> total_predictions
        (stats (snd (api_predict_image test_libs ''r1'' 1 2 (jpeg_upload ''ok'')
          ((initial_state 0)\<lparr>pipeline := Some \<lparr>config = test_config, yolo_model = None\<rparr>\<rparr>))))
       = 0"
  by (simp add: api_predict_image_def process_uploaded_file_def test_libs_def jpeg_upload_def
      predict_image_def predict_image_body_def bind_exn_def preprocess_image_def
      detect_road_signs_def array_size_def blank_image_def predict_handlers_def logged_def
      initial_state_def initial_stats_def)

text \<open>
  C5. With no detection model loaded the health query does not report \<open>degraded\<close>. When
  the model weights cannot be loaded at start, \<open>load_models\<close> returns false, the
  constructor does not read the flag, and \<open>initialize_pipeline\<close> stores the pipeline and
  reports success. The pipeline then has no detection model, every prediction is
  answered with the error \<open>500\<close> of the model that is not loaded, and yet the health
  query answers \<open>healthy\<close> with \<open>pipeline_loaded\<close> true and the metrics query answers
  \<open>loaded\<close>. Both queries return and raise nothing.
\<close>

theorem health_healthy_without_model:
  "snd (initialize_pipeline test_libs (initial_state 0)) = True
   \<and> map_option yolo_model (pipeline (fst (initialize_pipeline test_libs (initial_state 0))))
       = Some None
   \<and> health_check (fst (initialize_pipeline test_libs (initial_state 0))) 5
       = Inr \<lparr>health_status = ''healthy'', pipeline_loaded = True, health_uptime = 5,
              health_total_predictions = 0, version = ''1.0.0''\<rparr>
   \<and> map_sum id pipeline_status
        (get_metrics (fst (initialize_pipeline test_libs (initial_state 0))) 5)
       = Inr ''loaded''
   \<and> fst (api_predict_image test_libs ''r1'' 1 2 (jpeg_upload ''ok'')
            (fst (initialize_pipeline test_libs (initial_state 0))))
       = Inl (HTTPException 500 ''Erreur de prediction: Modele YOLO non charge'')"
proof -
  let ?p = "\<lparr>config = test_config, yolo_model = None\<rparr>"
  have init: "initialize_pipeline test_libs (initial_state 0)
      = ((initial_state 0)\<lparr>pipeline := Some ?p, service_log := [InitStarted, InitSucceeded]\<rparr>, True)"
    by (simp add: initialize_pipeline_def init_pipeline_def load_models_def test_libs_def
        initial_state_def logged_def)
  have predict: "predict_image test_libs ?p (Array (blank_image 200 300)) 1 2
       = Inr (FrameError ''Modele YOLO non charge'' 0 [] 1)"
    by (simp add: predict_image_def predict_image_body_def bind_exn_def preprocess_image_def
        detect_road_signs_def array_size_def blank_image_def)
  show ?thesis
    unfolding init fst_conv snd_conv
    by (simp add: health_check_def get_metrics_def initial_state_def initial_stats_def
        api_predict_image_def test_upload_ok predict predict_handlers_def)
qed

text \<open>
  C6, as amended. Normalizing twice is normalizing once, \<open>normalize(normalize(s)) =
  normalize(s)\<close>, for every ASCII string \<open>s\<close> and every configuration that does not
  strip special characters and whose known patterns are ASCII strings that whitespace
  collapsing leaves unchanged (no whitespace at either end, words separated by single
  spaces); the normalizer returns a string on every such input.
\<close>

theorem postprocess_text_idempotent:
  assumes "\<not> remove_special_chars cfg"
    and "list_all pattern_collapsed (known_patterns cfg)"
    and "is_ascii s"
  shows "\<exists>r. postprocess_text cfg s = Inr r \<and> postprocess_text cfg r = Inr r"
proof (cases "s = []")
  case True
  then show ?thesis by (simp add: postprocess_text_def)
next
  case False
  define n where "n = py_upper (collapse s)"
  define r where "r = match_patterns (known_patterns cfg) n"
  have n: "py_upper (collapse n) = n"
    by (simp add: n_def collapse_upper collapse_idem)
  from match_patterns_fixed [OF assms(2) n]
  have r: "py_upper (collapse r) = r" "match_patterns (known_patterns cfg) r = r"
    by (simp_all add: r_def)
  have 1: "postprocess_text cfg s = Inr r"
    using False assms(1) by (simp add: postprocess_text_def r_def n_def collapse_def)
  have 2: "postprocess_text cfg r = Inr r"
  proof (cases "r = []")
    case True
    then show ?thesis by (simp add: postprocess_text_def)
  next
    case False
    then show ?thesis
      using assms(1) r by (simp add: postprocess_text_def collapse_def)
  qed
  from 1 2 show ?thesis by blast
qed

theorem postprocess_text_idempotent_witness:
  "\<not> remove_special_chars (test_postprocessing\<lparr>remove_special_chars := False\<rparr>)
   \<and> list_all pattern_collapsed
       (known_patterns (test_postprocessing\<lparr>remove_special_chars := False\<rparr>))
   \<and> is_ascii ''stop sign''
   \<and> (\<exists>r. postprocess_text (test_postprocessing\<lparr>remove_special_chars := False\<rparr>)
              ''stop sign'' = Inr r
          \<and> postprocess_text (test_postprocessing\<lparr>remove_special_chars := False\<rparr>) r = Inr r)"
proof -
  have h1: "\<not> remove_special_chars (test_postprocessing\<lparr>remove_special_chars := False\<rparr>)"
    by simp
  have h2: "list_all pattern_collapsed
       (known_patterns (test_postprocessing\<lparr>remove_special_chars := False\<rparr>))"
    by code_simp
  have h3: "is_ascii ''stop sign''"
    by code_simp
  from postprocess_text_idempotent [OF h1 h2 h3] h1 h2 h3 show ?thesis
    by blast
qed

text \<open>
  C6, as stated, fails: with the single known pattern \<open>STOP \<close> (a trailing space) and
  no stripping, \<open>stop sign\<close> normalizes to \<open>STOP \<close>, which normalizes to \<open>STOP\<close>.
\<close>

theorem postprocess_text_not_idempotent:
  "postprocess_text \<lparr>remove_special_chars = False, known_patterns = [YStr ''STOP '']\<rparr>
     ''stop sign'' = Inr ''STOP ''
   \<and> postprocess_text \<lparr>remove_special_chars = False, known_patterns = [YStr ''STOP '']\<rparr>
     ''STOP '' = Inr ''STOP''
   \<and> ''STOP'' \<noteq> ''STOP ''"
  by code_simp

text \<open>
  C7. With the strip option enabled the normalizer does not remove the characters
  outside alphanumerics, space, hyphen and slash: the character class it strips with is
  refused by the regular-expression compiler, so every non-empty input raises. On the
  configuration of the tests (strip enabled, patterns \<open>STOP\<close> and \<open>YIELD\<close>) the inputs
  \<open>ST0P!\<close> and \<open>stop sign\<close> raise; with the strip option disabled \<open>stop sign\<close>
  normalizes to \<open>STOP\<close>.
\<close>

theorem postprocess_text_strip_raises:
  "postprocess_text (cfg\<lparr>remove_special_chars := True\<rparr>) (c # cs) = Inl bad_character_range
   \<and> postprocess_text test_postprocessing ''ST0P!'' = Inl (ReError ''bad character range'')
   \<and> postprocess_text test_postprocessing ''stop sign'' = Inl (ReError ''bad character range'')
   \<and> postprocess_text (test_postprocessing\<lparr>remove_special_chars := False\<rparr>) ''stop sign''
       = Inr ''STOP''"
proof -
  have 5: "postprocess_text (test_postprocessing\<lparr>remove_special_chars := False\<rparr>) ''stop sign''
       = Inr ''STOP''"
    by code_simp
  from strip_raises [of cfg c cs] test_postprocess_raises 5 show ?thesis
    by (simp add: bad_character_range_def)
qed

text \<open>
  C8. For every bounding box that lies within the image, \<open>0 \<le> x1 < x2 \<le> width\<close> and
  \<open>0 \<le> y1 < y2 \<le> height\<close>, and every two padding ratios \<open>r2 > r1 \<ge> 0\<close>, the extraction
  returns a region at both ratios without raising, and the region at \<open>r2\<close> has at least
  the area of the region at \<open>r1\<close>. At the padding ratio \<open>0\<close> the region is the exact crop
  \<open>image[y1:y2, x1:x2]\<close>: \<open>y2 - y1\<close> rows and \<open>x2 - x1\<close> columns whose samples are those
  of the image from row \<open>y1\<close> and column \<open>x1\<close> on.
\<close>

theorem extract_roi_padding_monotone:
  assumes "0 \<le> x1" "x1 < x2" "x2 \<le> int (ncols image0)"
    and "0 \<le> y1" "y1 < y2" "y2 \<le> int (nrows image0)"
    and "0 \<le> r1" "r1 < r2"
  shows "(\<exists>roi1 roi2.
            extract_roi (cfg\<lparr>padding_ratio := r1\<rparr>) image0 [x1, y1, x2, y2] = Inr roi1
          \<and> extract_roi (cfg\<lparr>padding_ratio := r2\<rparr>) image0 [x1, y1, x2, y2] = Inr roi2
          \<and> area roi1 \<le> area roi2)
       \<and> (\<exists>roi0.
            extract_roi (cfg\<lparr>padding_ratio := 0\<rparr>) image0 [x1, y1, x2, y2] = Inr roi0
          \<and> roi0 = slice2d image0 y1 y2 x1 x2
          \<and> nrows roi0 = nat (y2 - y1) \<and> ncols roi0 = nat (x2 - x1)
          \<and> (\<forall>i j k. sample roi0 i j k = sample image0 (nat y1 + i) (nat x1 + j) k))"
proof
  have r2: "0 \<le> r2" using assms by simp
  from extract_roi_dims [OF assms(1-7), of cfg] obtain roi1 where
    1: "extract_roi (cfg\<lparr>padding_ratio := r1\<rparr>) image0 [x1, y1, x2, y2] = Inr roi1"
      "nrows roi1 = nat (min (int (nrows image0)) (y2 + py_int (of_int (y2 - y1) * r1))
                         - max 0 (y1 - py_int (of_int (y2 - y1) * r1)))"
      "ncols roi1 = nat (min (int (ncols image0)) (x2 + py_int (of_int (x2 - x1) * r1))
                         - max 0 (x1 - py_int (of_int (x2 - x1) * r1)))"
    by blast
  from extract_roi_dims [OF assms(1-6) r2, of cfg] obtain roi2 where
    2: "extract_roi (cfg\<lparr>padding_ratio := r2\<rparr>) image0 [x1, y1, x2, y2] = Inr roi2"
      "nrows roi2 = nat (min (int (nrows image0)) (y2 + py_int (of_int (y2 - y1) * r2))
                         - max 0 (y1 - py_int (of_int (y2 - y1) * r2)))"
      "ncols roi2 = nat (min (int (ncols image0)) (x2 + py_int (of_int (x2 - x1) * r2))
                         - max 0 (x1 - py_int (of_int (x2 - x1) * r2)))"
    by blast
  have "of_int (y2 - y1) * r1 \<le> of_int (y2 - y1) * r2" "0 \<le> of_int (y2 - y1) * r1"
    using assms by (simp_all add: mult_left_mono)
  then have ph: "py_int (of_int (y2 - y1) * r1) \<le> py_int (of_int (y2 - y1) * r2)"
    by (rule py_int_mono [rotated])
  have "of_int (x2 - x1) * r1 \<le> of_int (x2 - x1) * r2" "0 \<le> of_int (x2 - x1) * r1"
    using assms by (simp_all add: mult_left_mono)
  then have pw: "py_int (of_int (x2 - x1) * r1) \<le> py_int (of_int (x2 - x1) * r2)"
    by (rule py_int_mono [rotated])
  from ph have rows: "nrows roi1 \<le> nrows roi2"
    unfolding 1 2 by auto
  from pw have cols: "ncols roi1 \<le> ncols roi2"
    unfolding 1 2 by auto
  from rows cols have "area roi1 \<le> area roi2"
    by (simp add: area_def mult_le_mono)
  with 1(1) 2(1) show "\<exists>roi1 roi2.
            extract_roi (cfg\<lparr>padding_ratio := r1\<rparr>) image0 [x1, y1, x2, y2] = Inr roi1
          \<and> extract_roi (cfg\<lparr>padding_ratio := r2\<rparr>) image0 [x1, y1, x2, y2] = Inr roi2
          \<and> area roi1 \<le> area roi2"
    by blast
next
  have b: "0 \<le> y1" "y1 \<le> y2" "y2 \<le> int (nrows image0)"
      "0 \<le> x1" "x1 \<le> x2" "x2 \<le> int (ncols image0)"
    using assms by auto
  have "extract_roi (cfg\<lparr>padding_ratio := 0\<rparr>) image0 [x1, y1, x2, y2]
      = Inr (slice2d image0 y1 y2 x1 x2)"
    by (simp add: extract_roi_def)
  with slice2d_in_bounds [OF b] show "\<exists>roi0.
            extract_roi (cfg\<lparr>padding_ratio := 0\<rparr>) image0 [x1, y1, x2, y2] = Inr roi0
          \<and> roi0 = slice2d image0 y1 y2 x1 x2
          \<and> nrows roi0 = nat (y2 - y1) \<and> ncols roi0 = nat (x2 - x1)
          \<and> (\<forall>i j k. sample roi0 i j k = sample image0 (nat y1 + i) (nat x1 + j) k)"
    by simp
qed

theorem extract_roi_padding_monotone_witness:
  "(0::int) \<le> 50 \<and> (50::int) < 150 \<and> (150::int) \<le> int (ncols (blank_image 200 300))
   \<and> (50::int) < 100 \<and> (100::int) \<le> int (nrows (blank_image 200 300))
   \<and> (0::real) \<le> 1 / 10 \<and> (1 / 10 :: real) < 1 / 2
   \<and> (\<exists>roi1 roi2.
          extract_roi (test_roi_config\<lparr>padding_ratio := 1 / 10\<rparr>) (blank_image 200 300)
            [50, 50, 150, 100] = Inr roi1
        \<and> extract_roi (test_roi_config\<lparr>padding_ratio := 1 / 2\<rparr>) (blank_image 200 300)
            [50, 50, 150, 100] = Inr roi2
        \<and> area roi1 \<le> area roi2)
   \<and> (\<exists>roi0.
          extract_roi (test_roi_config\<lparr>padding_ratio := 0\<rparr>) (blank_image 200 300)
            [50, 50, 150, 100] = Inr roi0
        \<and> nrows roi0 = 50 \<and> ncols roi0 = 100)"
proof -
  have h: "(0::int) \<le> 50" "(50::int) < 150" "(150::int) \<le> int (ncols (blank_image 200 300))"
      "(0::int) \<le> 50" "(50::int) < 100" "(100::int) \<le> int (nrows (blank_image 200 300))"
      "(0::real) \<le> 1 / 10" "(1 / 10 :: real) < 1 / 2"
    by (simp_all add: blank_image_def)
  from extract_roi_padding_monotone [OF h, of test_roi_config] h show ?thesis
    by auto
qed

text \<open>
  C9. Recognition never raises, but it loses the words it recognized whenever the strip
  option of the normalizer is enabled: the post-processing step raises inside the
  \<open>try\<close> block and the handler returns the empty result. With the engine answering
  \<open>['', 'STOP', '']\<close> at confidences \<open>[0, 95, 0]\<close> (the mock of
  \<open>test_recognize_text_success\<close>) and the configuration of the tests, the result is
  the empty one, where the specification and the test expect raw text \<open>STOP\<close>, confidence
  \<open>0.95\<close> and one word; with the strip option disabled that is the result.
\<close>

theorem recognize_text_loses_words:
  "(\<exists>r. recognize_text lib cfg roi_img = Inr r)
   \<and> recognize_text (lib\<lparr>image_to_data := (\<lambda>a c. Inr test_ocr_data)\<rparr>)
        (cfg\<lparr>postprocessing := test_postprocessing\<rparr>) roi_img
       = Inr \<lparr>ocr_text = [], ocr_confidence = 0, raw_text = [], word_count = 0\<rparr>
   \<and> recognize_text test_libs test_config (blank_image 50 100)
       = Inr \<lparr>ocr_text = [], ocr_confidence = 0, raw_text = [], word_count = 0\<rparr>
   \<and> recognize_text (lib\<lparr>image_to_data := (\<lambda>a c. Inr test_ocr_data)\<rparr>)
        (cfg\<lparr>postprocessing := test_postprocessing\<lparr>remove_special_chars := False\<rparr>\<rparr>) roi_img
       = Inr \<lparr>ocr_text = ''STOP'', ocr_confidence = 95 / 100, raw_text = ''STOP'',
              word_count = 1\<rparr>"
proof (intro conjI)
  show "\<exists>r. recognize_text lib cfg roi_img = Inr r"
    by (simp add: recognize_text_def split: sum.splits)
  have raises: "postprocess_text test_postprocessing ''STOP'' = Inl bad_character_range"
    by (rule test_postprocess_raises)
  have keeps: "postprocess_text (test_postprocessing\<lparr>remove_special_chars := False\<rparr>) ''STOP''
      = Inr ''STOP''"
    by code_simp
  show "recognize_text (lib\<lparr>image_to_data := (\<lambda>a c. Inr test_ocr_data)\<rparr>)
        (cfg\<lparr>postprocessing := test_postprocessing\<rparr>) roi_img
       = Inr \<lparr>ocr_text = [], ocr_confidence = 0, raw_text = [], word_count = 0\<rparr>"
    by (simp add: recognize_text_def recognize_text_body_def bind_exn_def test_ocr_data_def
        test_collect_words raises empty_ocr_result_def del: collect_words.simps)
  show "recognize_text test_libs test_config (blank_image 50 100)
       = Inr \<lparr>ocr_text = [], ocr_confidence = 0, raw_text = [], word_count = 0\<rparr>"
    by (rule test_recognize)
  show "recognize_text (lib\<lparr>image_to_data := (\<lambda>a c. Inr test_ocr_data)\<rparr>)
        (cfg\<lparr>postprocessing := test_postprocessing\<lparr>remove_special_chars := False\<rparr>\<rparr>) roi_img
       = Inr \<lparr>ocr_text = ''STOP'', ocr_confidence = 95 / 100, raw_text = ''STOP'',
              word_count = 1\<rparr>"
    by (simp add: recognize_text_def recognize_text_body_def bind_exn_def test_ocr_data_def
        test_collect_words keeps Let_def del: collect_words.simps)
qed




end
